theory Spec2Isabelle
  imports Complex_Main "HOL-Library.Monad_Syntax" "HOL-Library.Char_ord"
    "HOL-Library.List_Lexorder" "HOL-Library.Product_Lexorder"
begin

section \<open>Signal scoring (src/analysis/technical\_indicators.py)\<close>

subsection \<open>Values of a row\<close>

text \<open>
  \<open>df.apply(get_signal_strength, axis=1)\<close> hands every row over as a pandas Series of
  dtype float64, read by column name. A cell is a finite number, an infinity (a ratio
  such as \<open>Volume / Volume_MA\<close> with a zero average) or NaN, which is how pandas stores a
  missing value. Finite cells are modelled as reals: comparisons between cells are exact
  on floats, and the one float operation on cells, the quotient \<open>ATR / Close\<close>, is taken
  without rounding.
\<close>

datatype pyfloat = Fin real | PInf | NInf | NaN

text \<open>IEEE comparison \<open>x > y\<close>: false as soon as one side is NaN.\<close>

fun gt :: "pyfloat \<Rightarrow> pyfloat \<Rightarrow> bool" where
  "gt (Fin a) (Fin b) = (b < a)"
| "gt PInf (Fin b) = True"
| "gt PInf NInf = True"
| "gt (Fin a) NInf = True"
| "gt _ _ = False"

definition lt :: "pyfloat \<Rightarrow> pyfloat \<Rightarrow> bool" where
  "lt x y = gt y x"

text \<open>
  numpy's float64 division: a zero divisor gives an infinity or NaN (with a warning), it
  does not raise. The sign of a zero is not represented; a zero divisor counts as \<open>+0.0\<close>.
\<close>

fun fdiv :: "pyfloat \<Rightarrow> pyfloat \<Rightarrow> pyfloat" where
  "fdiv (Fin a) (Fin b) =
     (if b = 0 then (if 0 < a then PInf else if a < 0 then NInf else NaN) else Fin (a / b))"
| "fdiv (Fin a) PInf = Fin 0"
| "fdiv (Fin a) NInf = Fin 0"
| "fdiv PInf (Fin b) = (if b < 0 then NInf else PInf)"
| "fdiv NInf (Fin b) = (if b < 0 then PInf else NInf)"
| "fdiv _ _ = NaN"

text \<open>
  A row maps column names to cells. \<open>row['X']\<close> on a row without column \<open>X\<close> raises
  KeyError: \<open>None\<close> in the model.
\<close>

type_synonym row = "string \<Rightarrow> pyfloat option"

text \<open>\<open>row[a] > row[b]\<close> and \<open>row[a] < row[b]\<close>, the left operand read first.\<close>

definition item_gt :: "row \<Rightarrow> string \<Rightarrow> string \<Rightarrow> bool option" where
  "item_gt r a b = do { x \<leftarrow> r a; y \<leftarrow> r b; Some (gt x y) }"

definition item_lt :: "row \<Rightarrow> string \<Rightarrow> string \<Rightarrow> bool option" where
  "item_lt r a b = do { x \<leftarrow> r a; y \<leftarrow> r b; Some (lt x y) }"

text \<open>\<open>row[a] > c\<close> and \<open>row[a] < c\<close> for a literal \<open>c\<close>.\<close>

definition item_gt_const :: "row \<Rightarrow> string \<Rightarrow> real \<Rightarrow> bool option" where
  "item_gt_const r a c = do { x \<leftarrow> r a; Some (gt x (Fin c)) }"

definition item_lt_const :: "row \<Rightarrow> string \<Rightarrow> real \<Rightarrow> bool option" where
  "item_lt_const r a c = do { x \<leftarrow> r a; Some (lt x (Fin c)) }"

text \<open>
  Python's \<open>p and q\<close>: \<open>q\<close> is evaluated, and can raise, only when \<open>p\<close> is true.
\<close>

definition py_and :: "bool option \<Rightarrow> bool option \<Rightarrow> bool option" where
  "py_and p q = (case p of None \<Rightarrow> None | Some True \<Rightarrow> q | Some False \<Rightarrow> Some False)"

subsection \<open>The rules of \<open>get_signal_strength\<close>, in source order\<close>

text \<open>
  Each rule takes the row and the running \<open>strength\<close> and returns the new \<open>strength\<close>,
  or \<open>None\<close> when a column it reads is absent. \<open>strength\<close> is built from literals only
  (it starts at 0 and is changed by adding or multiplying by constants), so it is always
  a finite number; it is modelled as a real. The sums of the source are exact on floats
  (1.5, 1 and 0.5 are binary fractions); its products by 1.2 and 0.8 round, the products
  of the model do not.
\<close>

definition trend_strength :: "row \<Rightarrow> real \<Rightarrow> real option" where
  "trend_strength r strength =
     do { up \<leftarrow> py_and (item_gt r ''Close'' ''SMA_20'') (item_gt r ''SMA_20'' ''SMA_50'');
          if up then Some (strength + 1.5)
          else do { down \<leftarrow> py_and (item_lt r ''Close'' ''SMA_20'') (item_lt r ''SMA_20'' ''SMA_50'');
                    if down then Some (strength - 1.5) else Some strength } }"

definition adx_trend_strength :: "row \<Rightarrow> real \<Rightarrow> real option" where
  "adx_trend_strength r strength =
     do { strong \<leftarrow> item_gt_const r ''ADX'' 25;
          if strong
          then do { pos \<leftarrow> item_gt r ''DI_plus'' ''DI_minus'';
                    if pos then Some (strength + 1) else Some (strength - 1) }
          else Some strength }"

definition rsi_signals :: "row \<Rightarrow> real \<Rightarrow> real option" where
  "rsi_signals r strength =
     do { oversold \<leftarrow> item_lt_const r ''RSI'' 30;
          if oversold then Some (strength + 1)
          else do { overbought \<leftarrow> item_gt_const r ''RSI'' 70;
                    if overbought then Some (strength - 1) else Some strength } }"

definition macd_signals :: "row \<Rightarrow> real \<Rightarrow> real option" where
  "macd_signals r strength =
     do { above \<leftarrow> item_gt r ''MACD'' ''MACD_Signal'';
          if above then Some (strength + 1) else Some (strength - 1) }"

definition vortex_indicator :: "row \<Rightarrow> real \<Rightarrow> real option" where
  "vortex_indicator r strength =
     do { pos \<leftarrow> item_gt r ''VI_plus'' ''VI_minus'';
          if pos then Some (strength + 0.5) else Some (strength - 0.5) }"

definition volume_money_flow :: "row \<Rightarrow> real \<Rightarrow> real option" where
  "volume_money_flow r strength =
     do { high \<leftarrow> py_and (item_gt_const r ''Volume_Ratio'' 1.5) (item_gt_const r ''CMF'' 0);
          if high then Some (if 0 < strength then strength * 1.2 else strength * 0.8)
          else Some strength }"

definition support_resistance :: "row \<Rightarrow> real \<Rightarrow> real option" where
  "support_resistance r strength =
     do { near_support \<leftarrow> item_lt r ''Close'' ''S1'';
          if near_support then Some (strength + 0.5)
          else do { near_resistance \<leftarrow> item_gt r ''Close'' ''R1'';
                    if near_resistance then Some (strength - 0.5) else Some strength } }"

definition atr_volatility :: "row \<Rightarrow> real \<Rightarrow> real option" where
  "atr_volatility r strength =
     do { atr \<leftarrow> r ''ATR'';
          close \<leftarrow> r ''Close'';
          let atr_ratio = fdiv atr close in
          if gt atr_ratio (Fin 0.02) then Some (strength * 0.8) else Some strength }"

text \<open>The running total after the five additive rules (trend to Vortex).\<close>

definition additive_rules :: "row \<Rightarrow> real option" where
  "additive_rules r =
     do { s \<leftarrow> trend_strength r 0;
          s \<leftarrow> adx_trend_strength r s;
          s \<leftarrow> rsi_signals r s;
          s \<leftarrow> macd_signals r s;
          vortex_indicator r s }"

definition get_signal_strength :: "row \<Rightarrow> real option" where
  "get_signal_strength r =
     do { s \<leftarrow> additive_rules r;
          s \<leftarrow> volume_money_flow r s;
          s \<leftarrow> support_resistance r s;
          atr_volatility r s }"

subsection \<open>Categories (\<open>generate_signals\<close>)\<close>

datatype category = StrongBuy | Buy | Hold | Sell | StrongSell

text \<open>
  The \<open>conditions\<close> dictionary, in insertion order, evaluated on one value of the
  \<open>Signal_Strength\<close> column.
\<close>

definition conditions :: "real \<Rightarrow> (category \<times> bool) list" where
  "conditions s =
     [(StrongBuy, 2.5 < s),
      (Buy, 1 < s \<and> s \<le> 2.5),
      (Hold, -1 \<le> s \<and> s \<le> 1),
      (Sell, s < -1 \<and> -2.5 \<le> s),
      (StrongSell, s < -2.5)]"

text \<open>
  The \<open>Signal\<close> column starts as \<open>'Hold'\<close>; then every condition, in order, overwrites
  the rows it selects.
\<close>

definition signal_of :: "real \<Rightarrow> category" where
  "signal_of s = foldl (\<lambda>sig (name, cond). if cond then name else sig) Hold (conditions s)"

text \<open>
  \<open>generate_signals\<close> on the frame of one symbol, a list of rows. An exception raised
  while a row is scored leaves \<open>df.apply\<close>, is caught by the handler around the
  symbol's whole body and the symbol is left out of the result (\<open>None\<close>). The reference
  columns \<open>Signal_RSI\<close>, \<open>Signal_MACD\<close>, \<open>Signal_BB_Width\<close> read three columns that must
  exist; their rounded values are not modelled.
\<close>

fun score_rows :: "row list \<Rightarrow> real list option" where
  "score_rows [] = Some []"
| "score_rows (r # rs) =
     do { s \<leftarrow> get_signal_strength r; ss \<leftarrow> score_rows rs; Some (s # ss) }"

definition column_exists :: "row list \<Rightarrow> string \<Rightarrow> bool" where
  "column_exists df c = list_all (\<lambda>r. r c \<noteq> None) df"

definition generate_signals_df :: "row list \<Rightarrow> (real \<times> category) list option" where
  "generate_signals_df df =
     do { strengths \<leftarrow> score_rows df;
          if column_exists df ''RSI'' \<and> column_exists df ''MACD'' \<and> column_exists df ''BB_Width''
          then Some (map (\<lambda>s. (s, signal_of s)) strengths)
          else None }"

section \<open>Retrieval cache (src/data\_collection/db\_manager.py)\<close>

subsection \<open>Dates, timestamps and exceptions\<close>

text \<open>
  A naive \<open>datetime\<close> is its number of microseconds since the epoch, a \<open>date\<close> its day
  number; \<open>.date()\<close> drops the time of day. Python's bounds on years are not modelled.
\<close>

type_synonym datetime = int
type_synonym date = int

definition usec_per_day :: int where
  "usec_per_day = 86400000000"

definition date_of :: "datetime \<Rightarrow> date" where
  "date_of t = t div usec_per_day"

text \<open>\<open>timedelta(days=d, hours=h, minutes=m)\<close>, in microseconds.\<close>

definition timedelta :: "int \<Rightarrow> int \<Rightarrow> int \<Rightarrow> int" where
  "timedelta d h m = ((d * 24 + h) * 60 + m) * 60000000"

text \<open>\<open>t.replace(hour=h, minute=m, second=0, microsecond=0)\<close>: same day, new time.\<close>

definition replace_time :: "datetime \<Rightarrow> int \<Rightarrow> int \<Rightarrow> datetime" where
  "replace_time t h m = date_of t * usec_per_day + timedelta 0 h m"

text \<open>
  The body of a \<open>try\<close> block either raises or returns a value; the handler decides what
  the function returns when it raised.
\<close>

datatype 'a outcome = Raised | Returned 'a

subsection \<open>The table \<open>stock_data\<close>\<close>

text \<open>
  SQLite keeps dates as text, and compares, orders and maximises them as text. pandas
  writes a \<open>date\<close> as \<open>YYYY-MM-DD\<close> and a timestamp as \<open>YYYY-MM-DD HH:MM:SS\<close>, followed by
  \<open>.ffffff\<close> when the microseconds are not zero and by the offset (\<open>+05:30\<close>) when the
  timestamp has a time zone. Such a text is modelled as the day number of its first ten
  characters and the characters after them (none for a date): with four-digit years the
  order of the texts is the order of the days, then the order of the remaining
  characters.
\<close>

type_synonym iso_text = "date \<times> string"

text \<open>
  A frame of price history is a \<open>DataFrame\<close>: the name of its index and its bars. The
  index value of a bar is given by the text it is written as (a frame indexed by dates
  has no characters after the day, a frame indexed by timestamps has the time). Every
  frame has the columns \<open>Open\<close>, \<open>High\<close>, \<open>Low\<close>, \<open>Close\<close> and \<open>Volume\<close>, which the queries
  find whatever the case of their letters.
\<close>

record bar =
  bar_index :: iso_text
  bar_open :: real
  bar_high :: real
  bar_low :: real
  bar_close :: real
  bar_volume :: int

record frame =
  index_name :: "string option"
  bars :: "bar list"

text \<open>
  A row of the table. \<open>last_updated\<close> always comes from \<open>datetime.now()\<close>; its text is
  given by the timestamp, and the order of these texts is the order of the timestamps.
\<close>

record stock_row =
  row_symbol :: string
  row_date :: "iso_text option"
  row_open :: real
  row_high :: real
  row_low :: real
  row_close :: real
  row_volume :: int
  row_last_updated :: "datetime option"

text \<open>
  The store is the table: the name of its date column as the table declares it, and its
  rows. \<open>_init_db\<close> creates the table, if there is none, with the column \<open>date\<close>. A
  failure of the database itself is not modelled.
\<close>

record store =
  date_column :: string
  rows :: "stock_row list"

definition init_db :: store where
  "init_db = \<lparr>date_column = ''date'', rows = []\<rparr>"

text \<open>
  SQL matches the name of a column without regard to the case of its letters; pandas
  looks a column up by its exact name.
\<close>

definition ascii_lower :: "char \<Rightarrow> char" where
  "ascii_lower c =
     (case map_of (zip ''ABCDEFGHIJKLMNOPQRSTUVWXYZ'' ''abcdefghijklmnopqrstuvwxyz'') c of
        Some l \<Rightarrow> l
      | None \<Rightarrow> c)"

definition sql_name_eq :: "string \<Rightarrow> string \<Rightarrow> bool" where
  "sql_name_eq a b = (map ascii_lower a = map ascii_lower b)"

text \<open>
  \<open>get_stock_data\<close>. The query names the column \<open>date\<close> and raises when the table has no
  column of that name. It selects the rows of the symbol whose date text lies between
  the texts \<open>YYYY-MM-DD\<close> of the two dates (a NULL date satisfies no \<open>BETWEEN\<close>), ordered by
  that text. The columns of the result are named as the table declares them, so
  \<open>set_index('date')\<close> raises unless the column is \<open>date\<close> letter for letter. The handler
  returns \<open>None\<close>, as does the function when no row is selected. The index of the frame
  returned is named \<open>date\<close>; its values are the timestamps pandas parses from the texts,
  and stay given by those texts here.
\<close>

definition select_bar :: "string \<Rightarrow> iso_text \<Rightarrow> iso_text \<Rightarrow> stock_row \<Rightarrow> bar option" where
  "select_bar symbol lo hi r =
     (case row_date r of
        None \<Rightarrow> None
      | Some d \<Rightarrow>
          if row_symbol r = symbol \<and> lo \<le> d \<and> d \<le> hi
          then Some \<lparr>bar_index = d, bar_open = row_open r, bar_high = row_high r,
                      bar_low = row_low r, bar_close = row_close r, bar_volume = row_volume r\<rparr>
          else None)"

definition get_stock_data_try ::
  "store \<Rightarrow> string \<Rightarrow> datetime \<Rightarrow> datetime \<Rightarrow> bar list option outcome" where
  "get_stock_data_try db symbol start_date end_date =
     (if \<not> sql_name_eq (date_column db) ''date'' then Raised
      else
        (let df = sort_key bar_index
                    (List.map_filter
                       (select_bar symbol (date_of start_date, []) (date_of end_date, []))
                       (rows db))
         in if 0 < length df
            then (if date_column db = ''date'' then Returned (Some df) else Raised)
            else Returned None))"

definition get_stock_data :: "store \<Rightarrow> string \<Rightarrow> datetime \<Rightarrow> datetime \<Rightarrow> bar list option" where
  "get_stock_data db symbol start_date end_date =
     (case get_stock_data_try db symbol start_date end_date of
        Raised \<Rightarrow> None
      | Returned df \<Rightarrow> df)"

text \<open>
  \<open>save_stock_data\<close>: nothing is done for \<open>None\<close> or an empty frame. Otherwise
  \<open>reset_index\<close> turns the index into a column of its name (\<open>index\<close> when it has none),
  every bar gets the symbol and \<open>last_updated = datetime.now()\<close>, and the frame is written
  with \<open>to_sql('stock_data', conn, if_exists='replace')\<close>. pandas documents \<open>replace\<close> as
  "drop the table before inserting new values": the table is dropped as a whole, whatever
  symbols its rows belong to, and made anew with the columns and the rows of the frame.
\<close>

definition to_row :: "string \<Rightarrow> datetime \<Rightarrow> bar \<Rightarrow> stock_row" where
  "to_row symbol now b =
     \<lparr>row_symbol = symbol, row_date = Some (bar_index b), row_open = bar_open b,
      row_high = bar_high b, row_low = bar_low b, row_close = bar_close b,
      row_volume = bar_volume b, row_last_updated = Some now\<rparr>"

definition save_stock_data :: "store \<Rightarrow> datetime \<Rightarrow> string \<Rightarrow> frame option \<Rightarrow> store" where
  "save_stock_data db now symbol data =
     (case data of
        None \<Rightarrow> db
      | Some df \<Rightarrow>
          if bars df = [] then db
          else \<lparr>date_column = (case index_name df of None \<Rightarrow> ''index'' | Some n \<Rightarrow> n),
                rows = map (to_row symbol now) (bars df)\<rparr>)"

text \<open>SQL's \<open>MAX\<close>: the greatest non-NULL value, NULL when there is none.\<close>

definition sql_max :: "'a::linorder option list \<Rightarrow> 'a option" where
  "sql_max xs =
     foldl (\<lambda>acc x. case x of None \<Rightarrow> acc
                    | Some v \<Rightarrow> (case acc of None \<Rightarrow> Some v | Some a \<Rightarrow> Some (max a v)))
       None xs"

text \<open>
  \<open>strptime(text, '%Y-%m-%d %H:%M:%S.%f')\<close> on the text of a timestamp: the text has the
  fraction the format asks for only when the microseconds are not zero.
  \<open>strptime(text, '%Y-%m-%d').date()\<close> on a date text: it raises on any character after
  the day.
\<close>

definition strptime_timestamp :: "datetime \<Rightarrow> datetime outcome" where
  "strptime_timestamp t = (if t mod 1000000 = 0 then Raised else Returned t)"

definition strptime_date :: "iso_text \<Rightarrow> date outcome" where
  "strptime_date text = (if snd text = [] then Returned (fst text) else Raised)"

text \<open>
  \<open>is_data_fresh\<close>; \<open>now\<close> is what \<open>datetime.now()\<close> returns, the local time of the host.
  The source adds 5:30 to it and calls the result IST, which it is when the clock of the
  host runs on UTC. The query raises when the table has no column \<open>date\<close>; the handler
  returns \<open>False\<close>. The parameter \<open>lookback_days\<close> is not used by the source.
\<close>

definition is_data_fresh_try :: "store \<Rightarrow> datetime \<Rightarrow> string \<Rightarrow> int \<Rightarrow> bool outcome" where
  "is_data_fresh_try db now symbol lookback_days =
     (if \<not> sql_name_eq (date_column db) ''date'' then Raised
      else
        (let selected = filter (\<lambda>r. row_symbol r = symbol) (rows db);
             latest_date = sql_max (map row_date selected);
             last_updated = sql_max (map row_last_updated selected)
         in case (latest_date, last_updated) of
              (Some latest_date, Some last_updated) \<Rightarrow>
                (let ist_now = now + timedelta 0 5 30
                 in case strptime_timestamp last_updated of
                      Raised \<Rightarrow> Raised
                    | Returned last_updated \<Rightarrow>
                        (case strptime_date latest_date of
                           Raised \<Rightarrow> Raised
                         | Returned latest_date \<Rightarrow>
                             (let cutoff_time = replace_time ist_now 17 30;
                                  latest_required_date =
                                    (if ist_now < cutoff_time
                                     then date_of (ist_now - timedelta 2 0 0)
                                     else date_of (ist_now - timedelta 1 0 0))
                              in Returned (latest_required_date \<le> latest_date))))
            | _ \<Rightarrow> Returned False))"

definition is_data_fresh :: "store \<Rightarrow> datetime \<Rightarrow> string \<Rightarrow> int \<Rightarrow> bool" where
  "is_data_fresh db now symbol lookback_days =
     (case is_data_fresh_try db now symbol lookback_days of
        Raised \<Rightarrow> False
      | Returned fresh \<Rightarrow> fresh)"

section \<open>Fallback resolver (src/data\_collection/nse\_data\_fetcher.py)\<close>

subsection \<open>Strings\<close>

text \<open>Python's \<open>s.startswith(p)\<close>, \<open>sub in s\<close> and \<open>s.replace(old, new)\<close> for a non-empty \<open>old\<close>.\<close>

fun startswith :: "string \<Rightarrow> string \<Rightarrow> bool" where
  "startswith s [] = True"
| "startswith [] (p # ps) = False"
| "startswith (c # cs) (p # ps) = (c = p \<and> startswith cs ps)"

fun contains :: "string \<Rightarrow> string \<Rightarrow> bool" where
  "contains sub [] = (sub = [])"
| "contains sub (c # cs) = (startswith (c # cs) sub \<or> contains sub cs)"

function replace :: "string \<Rightarrow> string \<Rightarrow> string \<Rightarrow> string" where
  "replace old new [] = []"
| "replace old new (c # cs) =
     (if old \<noteq> [] \<and> startswith (c # cs) old
      then new @ replace old new (drop (length old) (c # cs))
      else c # replace old new cs)"
  by pat_completeness auto
termination
  by (relation "measure (\<lambda>(old, new, s). length s)") auto

subsection \<open>\<open>get_nifty50_symbols\<close>\<close>

definition symbol_mapping :: "(string \<times> string) list" where
  "symbol_mapping =
     [(''RELIANCE'', ''RELIANCE.BO''),
      (''M&M'', ''M&M.BO''),
      (''TATAMOTORS'', ''TATAMOTORS.BO''),
      (''MARUTI'', ''MARUTI.BO''),
      (''BAJAJ-AUTO'', ''BAJAJ-AUTO.BO'')]"

text \<open>
  The argument is the \<open>Symbol\<close> column of the CSV file, \<open>None\<close> when reading it raises;
  the result is then the empty list.
\<close>

definition get_nifty50_symbols :: "string list option \<Rightarrow> string list" where
  "get_nifty50_symbols csv =
     (case csv of
        None \<Rightarrow> []
      | Some symbols \<Rightarrow>
          map (\<lambda>symbol. case map_of symbol_mapping symbol of
                          Some mapped \<Rightarrow> mapped
                        | None \<Rightarrow> symbol @ ''.NS'') symbols)"

subsection \<open>The provider and the time-window chain\<close>

text \<open>
  What \<open>history\<close> returns is a frame indexed by timestamps: whether the index carries a
  time zone, and the quotes, each a timestamp with its columns (which play no part and
  stay a type parameter). \<open>yf.Ticker(sym).history(period=p)\<close> is \<open>provider sym p\<close>, \<open>None\<close>
  when the call raises. The calls made to the provider are recorded, in order, as pairs
  of listing and window.
\<close>

record 'a history =
  tz_aware :: bool
  quotes :: "(datetime \<times> 'a) list"

type_synonym 'a provider = "string \<Rightarrow> string \<Rightarrow> 'a history option"
type_synonym calls = "(string \<times> string) list"

text \<open>\<open>pd.DataFrame()\<close>, the frame without rows.\<close>

definition no_frame :: "'a history" where
  "no_frame = \<lparr>tz_aware = False, quotes = []\<rparr>"

text \<open>
  The start of the trimmed range. \<open>pd.DateOffset(months=k)\<close> is calendar arithmetic of
  pandas; it is the parameter \<open>months_before\<close> (\<open>months_before k t\<close> is \<open>t\<close> moved back
  by \<open>k\<close> months).
\<close>

definition trim_start :: "(nat \<Rightarrow> datetime \<Rightarrow> datetime) \<Rightarrow> string \<Rightarrow> datetime \<Rightarrow> datetime" where
  "trim_start months_before default_period end_date =
     (if default_period = ''3mo'' then months_before 3 end_date
      else if default_period = ''1mo'' then months_before 1 end_date
      else end_date - timedelta 90 0 0)"

text \<open>
  \<open>stock_data.loc[start_date:end_date]\<close> with two naive timestamps (pandas 2). On an index
  with a time zone the slice raises TypeError. On a naive index it is the quotes from
  start to end, both included; but when the index is not in ascending order and one of
  the two bounds is not a value of the index, it raises KeyError.
\<close>

definition loc_slice :: "datetime \<Rightarrow> datetime \<Rightarrow> 'a history \<Rightarrow> 'a history outcome" where
  "loc_slice start_date end_date stock_data =
     (let index = map fst (quotes stock_data)
      in if tz_aware stock_data then Raised
         else if \<not> sorted index \<and> \<not> (start_date \<in> set index \<and> end_date \<in> set index)
         then Raised
         else Returned (stock_data\<lparr>quotes :=
                filter (\<lambda>(t, _). start_date \<le> t \<and> t \<le> end_date) (quotes stock_data)\<rparr>))"

text \<open>
  The loop of \<open>fetch_stock_data\<close> over the periods still to try. \<open>ticker\<close> is the listing
  the \<open>Ticker\<close> object was made for, \<open>now\<close> is \<open>pd.Timestamp.now()\<close>. The parameter
  \<open>symbol\<close> of the source only feeds the log messages. The call of the provider and the
  trimming are both inside the \<open>try\<close>: when either raises, the handler logs a warning and
  the loop goes on with the next period.
\<close>

fun fetch_loop ::
  "'a provider \<Rightarrow> (nat \<Rightarrow> datetime \<Rightarrow> datetime) \<Rightarrow> datetime \<Rightarrow> string \<Rightarrow> string \<Rightarrow>
   string list \<Rightarrow> calls \<Rightarrow> ('a history \<times> string option) \<times> calls" where
  "fetch_loop provider months_before now ticker default_period [] made =
     ((no_frame, None), made)"
| "fetch_loop provider months_before now ticker default_period (period # periods) made =
     (case provider ticker period of
        None \<Rightarrow>
          fetch_loop provider months_before now ticker default_period periods
            (made @ [(ticker, period)])
      | Some stock_data \<Rightarrow>
          if quotes stock_data \<noteq> []
          then (if period \<noteq> default_period
                then (case loc_slice (trim_start months_before default_period now) now
                             stock_data of
                        Raised \<Rightarrow>
                          fetch_loop provider months_before now ticker default_period periods
                            (made @ [(ticker, period)])
                      | Returned trimmed \<Rightarrow>
                          ((trimmed, Some period), made @ [(ticker, period)]))
                else ((stock_data, Some period), made @ [(ticker, period)]))
          else fetch_loop provider months_before now ticker default_period periods
                 (made @ [(ticker, period)]))"

definition fetch_stock_data ::
  "'a provider \<Rightarrow> (nat \<Rightarrow> datetime \<Rightarrow> datetime) \<Rightarrow> datetime \<Rightarrow> string \<Rightarrow> string \<Rightarrow>
   calls \<Rightarrow> ('a history \<times> string option) \<times> calls" where
  "fetch_stock_data provider months_before now ticker default_period made =
     fetch_loop provider months_before now ticker default_period
       [default_period, ''ytd'', ''1y'', ''max''] made"

subsection \<open>Listing variants (\<open>fetch_nifty50_data\<close>)\<close>

text \<open>
  The body of the loop over the symbols: the listing as given, then the other exchange's
  listing, then the base symbol. It returns the listing that supplied the data (the
  variable \<open>symbol\<close> of the source, reassigned on success), what \<open>fetch_stock_data\<close>
  returned last, and the provider calls made. Making a \<open>Ticker\<close> object is taken not
  to raise; only \<open>history\<close> calls the provider.
\<close>

definition fetch_symbol ::
  "'a provider \<Rightarrow> (nat \<Rightarrow> datetime \<Rightarrow> datetime) \<Rightarrow> datetime \<Rightarrow> string \<Rightarrow> string \<Rightarrow>
   calls \<Rightarrow> (string \<times> 'a history \<times> string option) \<times> calls" where
  "fetch_symbol provider months_before now period symbol made =
     (let ((stock_data, used_period), made) =
            fetch_stock_data provider months_before now symbol period made
      in if quotes stock_data = []
         then
           (let ((symbol, stock_data, used_period), made) =
                  (if contains ''.NS'' symbol
                   then (let bse_symbol = replace ''.NS'' ''.BO'' symbol;
                             ((stock_data, used_period), made) =
                               fetch_stock_data provider months_before now bse_symbol period made
                         in ((if quotes stock_data \<noteq> [] then bse_symbol else symbol,
                              stock_data, used_period), made))
                   else if contains ''.BO'' symbol
                   then (let nse_symbol = replace ''.BO'' ''.NS'' symbol;
                             ((stock_data, used_period), made) =
                               fetch_stock_data provider months_before now nse_symbol period made
                         in ((if quotes stock_data \<noteq> [] then nse_symbol else symbol,
                              stock_data, used_period), made))
                   else ((symbol, stock_data, used_period), made))
            in if quotes stock_data = []
               then (let base_symbol = replace ''.BO'' [] (replace ''.NS'' [] symbol);
                         ((stock_data, used_period), made) =
                           fetch_stock_data provider months_before now base_symbol period made
                     in ((if quotes stock_data \<noteq> [] then base_symbol else symbol,
                          stock_data, used_period), made))
               else ((symbol, stock_data, used_period), made))
         else ((symbol, stock_data, used_period), made))"

text \<open>
  The loop: a symbol with data is entered into the dictionary \<open>data\<close> under the listing
  that supplied it; for a symbol without, the source logs "No data available ... (all
  formats and periods tried)" and leaves it out. The loop goes on with the next symbol in
  both cases.
\<close>

fun fetch_symbols ::
  "'a provider \<Rightarrow> (nat \<Rightarrow> datetime \<Rightarrow> datetime) \<Rightarrow> datetime \<Rightarrow> string \<Rightarrow> string list \<Rightarrow>
   (string \<Rightarrow> 'a history option) \<Rightarrow> calls \<Rightarrow> (string \<Rightarrow> 'a history option) \<times> calls" where
  "fetch_symbols provider months_before now period [] data made = (data, made)"
| "fetch_symbols provider months_before now period (symbol # symbols) data made =
     (let ((symbol, stock_data, used_period), made) =
            fetch_symbol provider months_before now period symbol made
      in fetch_symbols provider months_before now period symbols
           (if quotes stock_data \<noteq> [] then data(symbol \<mapsto> stock_data) else data) made)"

definition fetch_nifty50_data ::
  "'a provider \<Rightarrow> (nat \<Rightarrow> datetime \<Rightarrow> datetime) \<Rightarrow> datetime \<Rightarrow> string list option \<Rightarrow> string \<Rightarrow>
   (string \<Rightarrow> 'a history option) \<times> calls" where
  "fetch_nifty50_data provider months_before now csv period =
     (let nifty50_symbols = get_nifty50_symbols csv
      in if nifty50_symbols = [] then (Map.empty, [])
         else fetch_symbols provider months_before now period nifty50_symbols Map.empty [])"

section \<open>Vocabulary of the properties\<close>

text \<open>The columns \<open>get_signal_strength\<close> reads, and those \<open>generate_signals\<close> reads after scoring.\<close>

definition scoring_columns :: "string list" where
  "scoring_columns =
     [''Close'', ''SMA_20'', ''SMA_50'', ''ADX'', ''DI_plus'', ''DI_minus'', ''RSI'', ''MACD'',
      ''MACD_Signal'', ''VI_plus'', ''VI_minus'', ''Volume_Ratio'', ''CMF'', ''S1'', ''R1'', ''ATR'']"

definition reference_columns :: "string list" where
  "reference_columns = [''RSI'', ''MACD'', ''BB_Width'']"

text \<open>
  The freshness rule in the words of the specification: the time of day of a timestamp,
  and the required date, two days before the day of IST-now when IST-now is before
  17:30 and one day before it otherwise.
\<close>

definition time_of_day :: "datetime \<Rightarrow> int" where
  "time_of_day t = t mod usec_per_day"

definition spec_required_date :: "datetime \<Rightarrow> date" where
  "spec_required_date ist_now =
     (if time_of_day ist_now < timedelta 0 17 30 then date_of ist_now - 2 else date_of ist_now - 1)"




section \<open>Properties of the scoring engine\<close>

lemmas item_defs = item_gt_def item_lt_def item_gt_const_def item_lt_const_def py_and_def lt_def

lemmas rule_defs = trend_strength_def adx_trend_strength_def rsi_signals_def macd_signals_def
  vortex_indicator_def volume_money_flow_def support_resistance_def atr_volatility_def

lemma signal_of_cases:
  "signal_of s = (if 2.5 < s then StrongBuy else if 1 < s then Buy else if -1 \<le> s then Hold
                  else if -2.5 \<le> s then Sell else StrongSell)"
  by (simp add: signal_of_def conditions_def)

subsection \<open>An uptrend with every other rule at its negative or neutral branch\<close>

lemma additive_rules_uptrend:
  assumes "r ''Close'' = Some (Fin close)" "r ''SMA_20'' = Some (Fin sma_short)"
    "r ''SMA_50'' = Some (Fin sma_long)" "r ''ADX'' = Some (Fin adx)" "r ''RSI'' = Some (Fin rsi)"
    "r ''MACD'' = Some (Fin macd)" "r ''MACD_Signal'' = Some (Fin macd_signal)"
    "r ''VI_plus'' = Some (Fin vi_plus)" "r ''VI_minus'' = Some (Fin vi_minus)"
    "sma_short < close" "sma_long < sma_short" "adx \<le> 25" "30 \<le> rsi" "rsi \<le> 70"
    "macd \<le> macd_signal" "vi_plus \<le> vi_minus"
  shows "additive_rules r = Some 0"
  using assms by (simp add: additive_rules_def rule_defs item_defs)

text \<open>
  Claim C1. A row whose cells are all numbers, with
  \<open>Close > SMA_20 > SMA_50\<close>, \<open>ADX \<le> 25\<close>, \<open>30 \<le> RSI \<le> 70\<close>, \<open>MACD \<le> MACD_Signal\<close>,
  \<open>VI_plus \<le> VI_minus\<close> and \<open>S1 \<le> Close \<le> R1\<close>, scores exactly \<open>1.5 - 1.0 - 0.5 = 0\<close>
  and is categorised Hold. The running total is already 0 when the two multiplicative
  rules are reached, and they leave 0 at 0: the conditions of the claim on the volume
  ratio, the money flow and \<open>ATR / Close\<close> are not needed, so the statement holds under
  them in particular.
\<close>

theorem uptrend_only_row_scores_zero_hold:
  assumes "r ''Close'' = Some (Fin close)" "r ''SMA_20'' = Some (Fin sma_short)"
    "r ''SMA_50'' = Some (Fin sma_long)" "r ''ADX'' = Some (Fin adx)" "r ''RSI'' = Some (Fin rsi)"
    "r ''MACD'' = Some (Fin macd)" "r ''MACD_Signal'' = Some (Fin macd_signal)"
    "r ''VI_plus'' = Some (Fin vi_plus)" "r ''VI_minus'' = Some (Fin vi_minus)"
    "r ''Volume_Ratio'' = Some (Fin volume_ratio)" "r ''CMF'' = Some (Fin cmf)"
    "r ''S1'' = Some (Fin support)" "r ''R1'' = Some (Fin resistance)"
    "r ''ATR'' = Some (Fin atr)" "r ''BB_Width'' = Some (Fin bb_width)"
    "sma_short < close" "sma_long < sma_short" "adx \<le> 25" "30 \<le> rsi" "rsi \<le> 70"
    "macd \<le> macd_signal" "vi_plus \<le> vi_minus"
    "support \<le> close" "close \<le> resistance"
  shows "get_signal_strength r = Some 0 \<and> generate_signals_df [r] = Some [(0, Hold)]"
proof -
  have a: "additive_rules r = Some 0"
    using assms(1-9) assms(16-22) by (rule additive_rules_uptrend)
  have v: "volume_money_flow r 0 = Some 0"
    using assms by (cases "1.5 < volume_ratio") (simp_all add: volume_money_flow_def item_defs)
  have s: "support_resistance r 0 = Some 0"
    using assms by (simp add: support_resistance_def item_defs)
  have t: "atr_volatility r 0 = Some 0"
    using assms by (simp add: atr_volatility_def)
  have g: "get_signal_strength r = Some 0"
    by (simp add: get_signal_strength_def a v s t)
  have "generate_signals_df [r] = Some [(0, Hold)]"
    using assms by (simp add: generate_signals_df_def g column_exists_def signal_of_cases)
  with g show ?thesis by simp
qed

text \<open>
  The row of the witness also has a volume ratio above 1.5 with a negative money flow and
  \<open>ATR / Close = 2 / 110 \<le> 0.02\<close>, as the claim asks.
\<close>

theorem uptrend_only_row_scores_zero_hold_witness:
  "get_signal_strength (map_of [(''Close'', Fin 110), (''SMA_20'', Fin 105), (''SMA_50'', Fin 100),
      (''ADX'', Fin 20), (''DI_plus'', Fin 30), (''DI_minus'', Fin 10), (''RSI'', Fin 50),
      (''MACD'', Fin 1), (''MACD_Signal'', Fin 2), (''VI_plus'', Fin 0.9), (''VI_minus'', Fin 1.1),
      (''Volume_Ratio'', Fin 2), (''CMF'', Fin (-0.1)), (''S1'', Fin 108), (''R1'', Fin 112),
      (''ATR'', Fin 2), (''BB_Width'', Fin 0.1)]) = Some 0
   \<and> generate_signals_df [map_of [(''Close'', Fin 110), (''SMA_20'', Fin 105), (''SMA_50'', Fin 100),
      (''ADX'', Fin 20), (''DI_plus'', Fin 30), (''DI_minus'', Fin 10), (''RSI'', Fin 50),
      (''MACD'', Fin 1), (''MACD_Signal'', Fin 2), (''VI_plus'', Fin 0.9), (''VI_minus'', Fin 1.1),
      (''Volume_Ratio'', Fin 2), (''CMF'', Fin (-0.1)), (''S1'', Fin 108), (''R1'', Fin 112),
      (''ATR'', Fin 2), (''BB_Width'', Fin 0.1)]] = Some [(0, Hold)]"
  by (rule uptrend_only_row_scores_zero_hold[where close = 110 and sma_short = 105
        and sma_long = 100 and adx = 20 and rsi = 50 and macd = 1 and macd_signal = 2
        and vi_plus = "0.9" and vi_minus = "1.1" and volume_ratio = 2 and cmf = "-0.1"
        and support = 108 and resistance = 112 and atr = 2 and bb_width = "0.1"]) simp_all

subsection \<open>The thresholds of the categories\<close>

text \<open>
  Claim C2. Every score gets exactly one category: StrongBuy above 2.5, Buy in \<open>(1, 2.5]\<close>,
  Hold in \<open>[-1, 1]\<close>, Sell in \<open>[-2.5, -1)\<close>, StrongSell below -2.5. Exactly one of the five
  conditions of the source holds for a score, and it is the one whose category is
  assigned; the scores 1 and -1 are Hold, -2.5 is Sell.
\<close>

theorem category_thresholds_exhaustive_disjoint:
  "(signal_of s = StrongBuy) = (2.5 < s)
   \<and> (signal_of s = Buy) = (1 < s \<and> s \<le> 2.5)
   \<and> (signal_of s = Hold) = (-1 \<le> s \<and> s \<le> 1)
   \<and> (signal_of s = Sell) = (-2.5 \<le> s \<and> s < -1)
   \<and> (signal_of s = StrongSell) = (s < -2.5)
   \<and> filter snd (conditions s) = [(signal_of s, True)]
   \<and> signal_of 1 = Hold \<and> signal_of (-1) = Hold \<and> signal_of (-2.5) = Sell"
  by (auto simp: signal_of_def conditions_def)

subsection \<open>Rows with missing values\<close>

text \<open>
  Claim C3 as stated fails. In the row below \<open>SMA_50\<close> is missing (NaN), as it is in the
  first 49 rows of every frame; every other cell is a number. The row is scored: both
  trend comparisons are false on NaN, the MACD rule adds 1, the Vortex rule subtracts 0.5,
  and the row is categorised Hold.
\<close>

theorem missing_value_row_is_scored_hold:
  "generate_signals_df [map_of [(''Close'', Fin 110), (''SMA_20'', Fin 105), (''SMA_50'', NaN),
      (''ADX'', Fin 20), (''DI_plus'', Fin 30), (''DI_minus'', Fin 10), (''RSI'', Fin 50),
      (''MACD'', Fin 3), (''MACD_Signal'', Fin 2), (''VI_plus'', Fin 0.9), (''VI_minus'', Fin 1.1),
      (''Volume_Ratio'', Fin 2), (''CMF'', Fin (-0.1)), (''S1'', Fin 108), (''R1'', Fin 112),
      (''ATR'', Fin 2), (''BB_Width'', Fin 0.1)]] = Some [(0.5, Hold)]"
  by (simp add: generate_signals_df_def get_signal_strength_def additive_rules_def rule_defs
      item_defs column_exists_def signal_of_cases)

lemma item_gt_total: "r a \<noteq> None \<Longrightarrow> r b \<noteq> None \<Longrightarrow> \<exists>v. item_gt r a b = Some v"
  by (auto simp: item_gt_def)

lemma item_lt_total: "r a \<noteq> None \<Longrightarrow> r b \<noteq> None \<Longrightarrow> \<exists>v. item_lt r a b = Some v"
  by (auto simp: item_lt_def)

lemma item_gt_const_total: "r a \<noteq> None \<Longrightarrow> \<exists>v. item_gt_const r a c = Some v"
  by (auto simp: item_gt_const_def)

lemma item_lt_const_total: "r a \<noteq> None \<Longrightarrow> \<exists>v. item_lt_const r a c = Some v"
  by (auto simp: item_lt_const_def)

lemma py_and_total: "\<exists>v. p = Some v \<Longrightarrow> \<exists>v. q = Some v \<Longrightarrow> \<exists>v. py_and p q = Some v"
  by (auto simp: py_and_def split: bool.splits)

lemma trend_strength_total:
  assumes "r ''Close'' \<noteq> None" "r ''SMA_20'' \<noteq> None" "r ''SMA_50'' \<noteq> None"
  shows "\<exists>s'. trend_strength r s = Some s'"
proof -
  obtain u where u: "py_and (item_gt r ''Close'' ''SMA_20'') (item_gt r ''SMA_20'' ''SMA_50'') = Some u"
    using assms py_and_total item_gt_total by meson
  obtain d where d: "py_and (item_lt r ''Close'' ''SMA_20'') (item_lt r ''SMA_20'' ''SMA_50'') = Some d"
    using assms py_and_total item_lt_total by meson
  show ?thesis by (simp add: trend_strength_def u d)
qed

lemma adx_trend_strength_total:
  assumes "r ''ADX'' \<noteq> None" "r ''DI_plus'' \<noteq> None" "r ''DI_minus'' \<noteq> None"
  shows "\<exists>s'. adx_trend_strength r s = Some s'"
proof -
  obtain u where u: "item_gt_const r ''ADX'' 25 = Some u"
    using assms item_gt_const_total by meson
  obtain d where d: "item_gt r ''DI_plus'' ''DI_minus'' = Some d"
    using assms item_gt_total by meson
  show ?thesis by (simp add: adx_trend_strength_def u d)
qed

lemma rsi_signals_total:
  assumes "r ''RSI'' \<noteq> None"
  shows "\<exists>s'. rsi_signals r s = Some s'"
proof -
  obtain u where u: "item_lt_const r ''RSI'' 30 = Some u"
    using assms item_lt_const_total by meson
  obtain d where d: "item_gt_const r ''RSI'' 70 = Some d"
    using assms item_gt_const_total by meson
  show ?thesis by (simp add: rsi_signals_def u d)
qed

lemma macd_signals_total:
  assumes "r ''MACD'' \<noteq> None" "r ''MACD_Signal'' \<noteq> None"
  shows "\<exists>s'. macd_signals r s = Some s'"
proof -
  obtain u where u: "item_gt r ''MACD'' ''MACD_Signal'' = Some u"
    using assms item_gt_total by meson
  show ?thesis by (simp add: macd_signals_def u)
qed

lemma vortex_indicator_total:
  assumes "r ''VI_plus'' \<noteq> None" "r ''VI_minus'' \<noteq> None"
  shows "\<exists>s'. vortex_indicator r s = Some s'"
proof -
  obtain u where u: "item_gt r ''VI_plus'' ''VI_minus'' = Some u"
    using assms item_gt_total by meson
  show ?thesis by (simp add: vortex_indicator_def u)
qed

lemma volume_money_flow_total:
  assumes "r ''Volume_Ratio'' \<noteq> None" "r ''CMF'' \<noteq> None"
  shows "\<exists>s'. volume_money_flow r s = Some s'"
proof -
  obtain u where u: "py_and (item_gt_const r ''Volume_Ratio'' 1.5) (item_gt_const r ''CMF'' 0) = Some u"
    using assms py_and_total item_gt_const_total by meson
  have "volume_money_flow r s = Some (if u then (if 0 < s then s * 1.2 else s * 0.8) else s)"
    unfolding volume_money_flow_def u by simp
  then show ?thesis by blast
qed

lemma support_resistance_total:
  assumes "r ''Close'' \<noteq> None" "r ''S1'' \<noteq> None" "r ''R1'' \<noteq> None"
  shows "\<exists>s'. support_resistance r s = Some s'"
proof -
  obtain u where u: "item_lt r ''Close'' ''S1'' = Some u"
    using assms item_lt_total by meson
  obtain d where d: "item_gt r ''Close'' ''R1'' = Some d"
    using assms item_gt_total by meson
  show ?thesis by (simp add: support_resistance_def u d)
qed

lemma atr_volatility_total:
  assumes "r ''ATR'' \<noteq> None" "r ''Close'' \<noteq> None"
  shows "\<exists>s'. atr_volatility r s = Some s'"
proof -
  obtain a c where ac: "r ''ATR'' = Some a" "r ''Close'' = Some c"
    using assms by auto
  have "atr_volatility r s = Some (if gt (fdiv a c) (Fin 0.02) then s * 0.8 else s)"
    unfolding atr_volatility_def ac by simp
  then show ?thesis by blast
qed

lemma get_signal_strength_total:
  assumes "\<forall>c\<in>set scoring_columns. r c \<noteq> None"
  shows "\<exists>s. get_signal_strength r = Some s"
proof -
  have c: "r ''Close'' \<noteq> None" "r ''SMA_20'' \<noteq> None" "r ''SMA_50'' \<noteq> None"
    "r ''ADX'' \<noteq> None" "r ''DI_plus'' \<noteq> None" "r ''DI_minus'' \<noteq> None" "r ''RSI'' \<noteq> None"
    "r ''MACD'' \<noteq> None" "r ''MACD_Signal'' \<noteq> None" "r ''VI_plus'' \<noteq> None"
    "r ''VI_minus'' \<noteq> None" "r ''Volume_Ratio'' \<noteq> None" "r ''CMF'' \<noteq> None"
    "r ''S1'' \<noteq> None" "r ''R1'' \<noteq> None" "r ''ATR'' \<noteq> None"
    using assms by (simp_all add: scoring_columns_def)
  obtain s1 where s1: "trend_strength r 0 = Some s1"
    using trend_strength_total c by meson
  obtain s2 where s2: "adx_trend_strength r s1 = Some s2"
    using adx_trend_strength_total c by meson
  obtain s3 where s3: "rsi_signals r s2 = Some s3"
    using rsi_signals_total c by meson
  obtain s4 where s4: "macd_signals r s3 = Some s4"
    using macd_signals_total c by meson
  obtain s5 where s5: "vortex_indicator r s4 = Some s5"
    using vortex_indicator_total c by meson
  obtain s6 where s6: "volume_money_flow r s5 = Some s6"
    using volume_money_flow_total c by meson
  obtain s7 where s7: "support_resistance r s6 = Some s7"
    using support_resistance_total c by meson
  obtain s8 where s8: "atr_volatility r s7 = Some s8"
    using atr_volatility_total c by meson
  show ?thesis
    by (simp add: get_signal_strength_def additive_rules_def s1 s2 s3 s4 s5 s6 s7 s8)
qed

lemma score_rows_total:
  "\<forall>r\<in>set df. \<forall>c\<in>set scoring_columns. r c \<noteq> None \<Longrightarrow>
   \<exists>ss. score_rows df = Some ss \<and> length ss = length df
        \<and> (\<forall>i<length df. get_signal_strength (df ! i) = Some (ss ! i))"
proof (induction df)
  case Nil
  then show ?case by simp
next
  case (Cons r df)
  then obtain ss where ss: "score_rows df = Some ss" "length ss = length df"
      "\<forall>i<length df. get_signal_strength (df ! i) = Some (ss ! i)"
    by auto
  have "\<forall>c\<in>set scoring_columns. r c \<noteq> None"
    using Cons.prems by simp
  then obtain s where s: "get_signal_strength r = Some s"
    using get_signal_strength_total by blast
  have "\<forall>i<length (r # df). get_signal_strength ((r # df) ! i) = Some ((s # ss) ! i)"
    using s ss(3) by (auto simp: nth_Cons split: nat.splits)
  then show ?case using s ss by simp
qed

lemma score_rows_None:
  "\<exists>r\<in>set df. get_signal_strength r = None \<Longrightarrow> score_rows df = None"
proof (induction df)
  case Nil
  then show ?case by simp
next
  case (Cons a df)
  show ?case
  proof (cases "get_signal_strength a")
    case None
    then show ?thesis by simp
  next
    case (Some s)
    with Cons.prems have "\<exists>r\<in>set df. get_signal_strength r = None"
      by auto
    then have "score_rows df = None"
      by (rule Cons.IH)
    then show ?thesis by (simp add: Some)
  qed
qed

text \<open>
  Claim C3, amended. The source has no \<open>MissingIndicatorData\<close> condition and skips no row.
  When every column read exists in the rows of a frame, whatever the cells hold (numbers,
  infinities or NaN for a missing value), every row of the frame receives a score and
  the category of that score. Scoring fails only on a column that does not exist
  (KeyError), and then the handler in \<open>generate_signals\<close> drops the whole frame of the
  symbol.
\<close>

theorem rows_with_missing_values_are_scored:
  "((\<forall>r\<in>set df. \<forall>c\<in>set (scoring_columns @ reference_columns). r c \<noteq> None) \<longrightarrow>
      (\<exists>out. generate_signals_df df = Some out \<and> length out = length df
         \<and> (\<forall>i<length df. \<exists>s. get_signal_strength (df ! i) = Some s \<and> out ! i = (s, signal_of s))))
   \<and> ((\<exists>r\<in>set df. get_signal_strength r = None) \<longrightarrow> generate_signals_df df = None)"
proof (intro conjI impI)
  assume a: "\<forall>r\<in>set df. \<forall>c\<in>set (scoring_columns @ reference_columns). r c \<noteq> None"
  then have "\<forall>r\<in>set df. \<forall>c\<in>set scoring_columns. r c \<noteq> None"
    by simp
  then obtain ss where ss: "score_rows df = Some ss" "length ss = length df"
      "\<forall>i<length df. get_signal_strength (df ! i) = Some (ss ! i)"
    using score_rows_total by blast
  have cols: "column_exists df ''RSI''" "column_exists df ''MACD''" "column_exists df ''BB_Width''"
    using a by (simp_all add: column_exists_def reference_columns_def list_all_iff)
  have "generate_signals_df df = Some (map (\<lambda>s. (s, signal_of s)) ss)"
    by (simp add: generate_signals_df_def ss(1) cols)
  then show "\<exists>out. generate_signals_df df = Some out \<and> length out = length df
         \<and> (\<forall>i<length df. \<exists>s. get_signal_strength (df ! i) = Some s \<and> out ! i = (s, signal_of s))"
    using ss by simp
next
  assume "\<exists>r\<in>set df. get_signal_strength r = None"
  then show "generate_signals_df df = None"
    by (simp add: generate_signals_df_def score_rows_None)
qed


theorem rows_with_missing_values_are_scored_witness:
  "(\<exists>out. generate_signals_df [map_of [(''Close'', NaN), (''SMA_20'', NaN), (''SMA_50'', NaN),
        (''ADX'', NaN), (''DI_plus'', NaN), (''DI_minus'', NaN), (''RSI'', NaN), (''MACD'', NaN),
        (''MACD_Signal'', NaN), (''VI_plus'', NaN), (''VI_minus'', NaN), (''Volume_Ratio'', NaN),
        (''CMF'', NaN), (''S1'', NaN), (''R1'', NaN), (''ATR'', NaN), (''BB_Width'', NaN)]]
      = Some out \<and> length out = 1)
   \<and> generate_signals_df [Map.empty] = None"
proof -
  let ?r = "map_of [(''Close'', NaN), (''SMA_20'', NaN), (''SMA_50'', NaN),
        (''ADX'', NaN), (''DI_plus'', NaN), (''DI_minus'', NaN), (''RSI'', NaN), (''MACD'', NaN),
        (''MACD_Signal'', NaN), (''VI_plus'', NaN), (''VI_minus'', NaN), (''Volume_Ratio'', NaN),
        (''CMF'', NaN), (''S1'', NaN), (''R1'', NaN), (''ATR'', NaN), (''BB_Width'', NaN)]"
  have h: "\<forall>r\<in>set [?r]. \<forall>c\<in>set (scoring_columns @ reference_columns). r c \<noteq> None"
    by (simp add: scoring_columns_def reference_columns_def)
  have "\<exists>out. generate_signals_df [?r] = Some out \<and> length out = 1"
    using rows_with_missing_values_are_scored[of "[?r]"] h by fastforce
  moreover have "get_signal_strength Map.empty = None"
    by (simp add: get_signal_strength_def additive_rules_def rule_defs item_defs)
  then have "generate_signals_df [Map.empty] = None"
    using rows_with_missing_values_are_scored[of "[Map.empty]"] by simp
  ultimately show ?thesis by simp
qed

subsection \<open>The volume and money-flow amplifier\<close>

text \<open>
  Claim C4. On a row with numbers for the volume ratio and the money flow, the amplifier
  maps the running total \<open>S\<close> of the five additive rules to \<open>1.2 * S\<close> when \<open>S > 0\<close> and to
  \<open>0.8 * S\<close> when \<open>S \<le> 0\<close> if the volume ratio exceeds 1.5 and the money flow is positive,
  and leaves \<open>S\<close> unchanged otherwise; the result is never below \<open>S\<close>. The score is the
  running total of the additive rules, passed through this step and then through the
  two remaining rules.
\<close>

theorem volume_amplifier_never_lowers:
  assumes "r ''Volume_Ratio'' = Some (Fin volume_ratio)" "r ''CMF'' = Some (Fin cmf)"
  shows "volume_money_flow r S =
           Some (if 1.5 < volume_ratio \<and> 0 < cmf then (if 0 < S then 1.2 * S else 0.8 * S) else S)
       \<and> (\<exists>S'. volume_money_flow r S = Some S' \<and> S \<le> S')
       \<and> get_signal_strength r =
           do { S \<leftarrow> additive_rules r;
                S' \<leftarrow> Some (if 1.5 < volume_ratio \<and> 0 < cmf
                            then (if 0 < S then 1.2 * S else 0.8 * S) else S);
                S'' \<leftarrow> support_resistance r S';
                atr_volatility r S'' }"
proof -
  have v: "volume_money_flow r S =
           Some (if 1.5 < volume_ratio \<and> 0 < cmf then (if 0 < S then 1.2 * S else 0.8 * S) else S)"
    for S
    using assms by (cases "1.5 < volume_ratio") (simp_all add: volume_money_flow_def item_defs)
  have "S \<le> (if 1.5 < volume_ratio \<and> 0 < cmf then (if 0 < S then 1.2 * S else 0.8 * S) else S)"
    by simp
  then show ?thesis
    by (simp add: v get_signal_strength_def)
qed

theorem volume_amplifier_never_lowers_witness:
  "volume_money_flow (map_of [(''Volume_Ratio'', Fin 2), (''CMF'', Fin 0.3)]) (-2.5) = Some (-2)
   \<and> volume_money_flow (map_of [(''Volume_Ratio'', Fin 2), (''CMF'', Fin 0.3)]) 2.5 = Some 3
   \<and> volume_money_flow (map_of [(''Volume_Ratio'', Fin 1), (''CMF'', Fin 0.3)]) 2.5 = Some 2.5"
  using volume_amplifier_never_lowers[of "map_of [(''Volume_Ratio'', Fin 2), (''CMF'', Fin 0.3)]"
      2 "0.3" "-2.5"]
    volume_amplifier_never_lowers[of "map_of [(''Volume_Ratio'', Fin 2), (''CMF'', Fin 0.3)]"
      2 "0.3" "2.5"]
    volume_amplifier_never_lowers[of "map_of [(''Volume_Ratio'', Fin 1), (''CMF'', Fin 0.3)]"
      1 "0.3" "2.5"]
  by simp

section \<open>Properties of the retrieval cache\<close>

subsection \<open>Freshness\<close>

lemma before_cutoff: "(t < replace_time t 17 30) = (time_of_day t < timedelta 0 17 30)"
proof -
  have "t = date_of t * usec_per_day + time_of_day t"
    by (simp add: date_of_def time_of_day_def)
  then show ?thesis
    unfolding replace_time_def by linarith
qed

lemma date_of_minus_days: "date_of (t - timedelta k 0 0) = date_of t - k"
proof -
  have "timedelta k 0 0 = k * usec_per_day"
    by (simp add: timedelta_def usec_per_day_def)
  then show ?thesis
    by (simp add: date_of_def usec_per_day_def)
qed

lemma required_date:
  "(if t < replace_time t 17 30 then date_of (t - timedelta 2 0 0)
    else date_of (t - timedelta 1 0 0)) = spec_required_date t"
  by (simp add: before_cutoff date_of_minus_days spec_required_date_def)

text \<open>
  When the table has a column \<open>date\<close>, the greatest date text of the symbol is a plain
  date and the greatest \<open>last_updated\<close> has microseconds, \<open>is_data_fresh\<close> follows the
  rule of the specification, with \<open>datetime.now()\<close> plus 5:30 in the place of IST-now.
\<close>

lemma is_data_fresh_when_texts_parse:
  assumes "sql_name_eq (date_column db) ''date''"
    "sql_max (map row_date (filter (\<lambda>r. row_symbol r = symbol) (rows db))) = Some (d, [])"
    "sql_max (map row_last_updated (filter (\<lambda>r. row_symbol r = symbol) (rows db))) = Some u"
    "u mod 1000000 \<noteq> 0"
  shows "is_data_fresh db now symbol lookback_days
           = (spec_required_date (now + timedelta 0 5 30) \<le> d)"
  using assms
  by (simp add: is_data_fresh_def is_data_fresh_try_def strptime_timestamp_def
      strptime_date_def required_date Let_def)

text \<open>
  Claim C5 does not hold of the source. The host clock runs on UTC and shows 10:30 of
  day 20000, so IST-now is 16:00 of that day and the required date is day 19998. The
  table was written by \<open>save_stock_data\<close> at 09:00:00.123456 from a frame as the provider
  returns it: index \<open>Date\<close>, one bar with the timestamp of midnight (+05:30) of day
  19998. The symbol has a greatest stored date, of the required day, and a
  \<open>last_updated\<close>; \<open>strptime\<close> with the format \<open>%Y-%m-%d\<close> raises on the time in the date
  text, and \<open>is_data_fresh\<close> returns \<open>False\<close>. It does so too for a frame indexed by plain
  dates when \<open>last_updated\<close> was taken at a full second (09:00:00), where the format
  \<open>%Y-%m-%d %H:%M:%S.%f\<close> finds no fraction; one microsecond later the same data is fresh.
\<close>

theorem rows_written_by_save_are_not_fresh:
  "\<not> is_data_fresh
       (save_stock_data init_db (20000 * usec_per_day + timedelta 0 9 0 + 123456) ''TCS.NS''
          (Some \<lparr>index_name = Some ''Date'',
                 bars = [\<lparr>bar_index = (19998, '' 00:00:00+05:30''), bar_open = 1, bar_high = 2,
                          bar_low = 1, bar_close = 2, bar_volume = 100\<rparr>]\<rparr>))
       (20000 * usec_per_day + timedelta 0 10 30) ''TCS.NS'' 1
   \<and> sql_max (map row_date (rows
       (save_stock_data init_db (20000 * usec_per_day + timedelta 0 9 0 + 123456) ''TCS.NS''
          (Some \<lparr>index_name = Some ''Date'',
                 bars = [\<lparr>bar_index = (19998, '' 00:00:00+05:30''), bar_open = 1, bar_high = 2,
                          bar_low = 1, bar_close = 2, bar_volume = 100\<rparr>]\<rparr>))))
       = Some (19998, '' 00:00:00+05:30'')
   \<and> spec_required_date (20000 * usec_per_day + timedelta 0 10 30 + timedelta 0 5 30) = 19998
   \<and> \<not> is_data_fresh
       (save_stock_data init_db (20000 * usec_per_day + timedelta 0 9 0) ''TCS.NS''
          (Some \<lparr>index_name = Some ''date'',
                 bars = [\<lparr>bar_index = (19998, []), bar_open = 1, bar_high = 2,
                          bar_low = 1, bar_close = 2, bar_volume = 100\<rparr>]\<rparr>))
       (20000 * usec_per_day + timedelta 0 10 30) ''TCS.NS'' 1
   \<and> is_data_fresh
       (save_stock_data init_db (20000 * usec_per_day + timedelta 0 9 0 + 1) ''TCS.NS''
          (Some \<lparr>index_name = Some ''date'',
                 bars = [\<lparr>bar_index = (19998, []), bar_open = 1, bar_high = 2,
                          bar_low = 1, bar_close = 2, bar_volume = 100\<rparr>]\<rparr>))
       (20000 * usec_per_day + timedelta 0 10 30) ''TCS.NS'' 1"
  by (simp add: is_data_fresh_def is_data_fresh_try_def save_stock_data_def init_db_def
      to_row_def sql_max_def sql_name_eq_def ascii_lower_def strptime_timestamp_def
      strptime_date_def spec_required_date_def time_of_day_def replace_time_def date_of_def
      timedelta_def usec_per_day_def)

subsection \<open>Empty writes\<close>

text \<open>
  Claim C10. \<open>save_stock_data\<close> with no frame or an empty frame returns the store as it
  was, so \<open>is_data_fresh\<close> and \<open>get_stock_data\<close> answer afterwards as before.
\<close>

theorem empty_put_changes_nothing:
  "save_stock_data db now symbol None = db
   \<and> save_stock_data db now symbol (Some \<lparr>index_name = n, bars = []\<rparr>) = db
   \<and> is_data_fresh (save_stock_data db now symbol None) t s k = is_data_fresh db t s k
   \<and> is_data_fresh (save_stock_data db now symbol (Some \<lparr>index_name = n, bars = []\<rparr>)) t s k
       = is_data_fresh db t s k
   \<and> get_stock_data (save_stock_data db now symbol None) s lo hi = get_stock_data db s lo hi
   \<and> get_stock_data (save_stock_data db now symbol (Some \<lparr>index_name = n, bars = []\<rparr>)) s lo hi
       = get_stock_data db s lo hi"
  by (simp add: save_stock_data_def)

subsection \<open>A write and the rows of other symbols\<close>

text \<open>
  Claim C6 does not hold of the source. The store has one row for TCS.NS, which
  \<open>get_stock_data\<close> returns. Saving one bar for INFY.NS replaces the whole table by the
  row of INFY.NS, and \<open>get_stock_data\<close> for TCS.NS then finds nothing.
\<close>

theorem put_drops_other_symbols:
  "get_stock_data
     \<lparr>date_column = ''date'',
      rows = [\<lparr>row_symbol = ''TCS.NS'', row_date = Some (10, []), row_open = 1, row_high = 2,
               row_low = 1, row_close = 2, row_volume = 100, row_last_updated = Some 1\<rparr>]\<rparr>
     ''TCS.NS'' 0 (20 * usec_per_day)
   = Some [\<lparr>bar_index = (10, []), bar_open = 1, bar_high = 2, bar_low = 1, bar_close = 2,
            bar_volume = 100\<rparr>]
   \<and> save_stock_data
     \<lparr>date_column = ''date'',
      rows = [\<lparr>row_symbol = ''TCS.NS'', row_date = Some (10, []), row_open = 1, row_high = 2,
               row_low = 1, row_close = 2, row_volume = 100, row_last_updated = Some 1\<rparr>]\<rparr>
     5 ''INFY.NS''
     (Some \<lparr>index_name = Some ''date'',
            bars = [\<lparr>bar_index = (11, []), bar_open = 3, bar_high = 4, bar_low = 3,
                     bar_close = 4, bar_volume = 7\<rparr>]\<rparr>)
   = \<lparr>date_column = ''date'',
      rows = [\<lparr>row_symbol = ''INFY.NS'', row_date = Some (11, []), row_open = 3, row_high = 4,
               row_low = 3, row_close = 4, row_volume = 7, row_last_updated = Some 5\<rparr>]\<rparr>
   \<and> get_stock_data
     (save_stock_data
       \<lparr>date_column = ''date'',
        rows = [\<lparr>row_symbol = ''TCS.NS'', row_date = Some (10, []), row_open = 1, row_high = 2,
                 row_low = 1, row_close = 2, row_volume = 100, row_last_updated = Some 1\<rparr>]\<rparr>
       5 ''INFY.NS''
       (Some \<lparr>index_name = Some ''date'',
              bars = [\<lparr>bar_index = (11, []), bar_open = 3, bar_high = 4, bar_low = 3,
                       bar_close = 4, bar_volume = 7\<rparr>]\<rparr>))
     ''TCS.NS'' 0 (20 * usec_per_day)
   = None"
  by (simp add: get_stock_data_def get_stock_data_try_def save_stock_data_def to_row_def
      select_bar_def sql_name_eq_def date_of_def usec_per_day_def)

subsection \<open>Writing, then reading\<close>


















section \<open>Properties of the fallback resolver\<close>

subsection \<open>The time-window chain\<close>











subsection \<open>The listing variants\<close>

text \<open>
  Claim C9 does not hold of the source. The CSV file lists TCS, the default window is
  \<open>3mo\<close>, and a month of \<open>pd.DateOffset\<close> is taken as 30 days.

  First, all indexes naive: the provider has no data for TCS.NS in the last three
  months, and year-to-date has a quote 200 days old. \<open>fetch_stock_data\<close> tests that the
  series of \<open>ytd\<close> is not empty, trims it to nothing and returns it without testing
  again. The windows \<open>1y\<close> and \<open>max\<close> of TCS.NS are never asked for, the other listings
  have nothing, and the symbol is left out after 10 calls, while the log says that all
  formats and periods were tried.

  Second, indexes with a time zone, as the provider returns them: the call for \<open>3mo\<close>
  raises, the three wider windows each have a quote 10 days old. Each trimming raises
  and counts as a failed window, so TCS.NS yields nothing although three of its windows
  had data; the symbol is left out after all 12 calls.
\<close>

theorem symbol_skipped_with_data_and_untried_windows:
  "fetch_nifty50_data
     (\<lambda>listing period. if listing = ''TCS.NS'' \<and> period = ''ytd''
        then Some \<lparr>tz_aware = False,
                   quotes = [(20000 * usec_per_day - timedelta 200 0 0, ())]\<rparr>
        else Some \<lparr>tz_aware = False, quotes = []\<rparr>)
     (\<lambda>k t. t - timedelta (30 * int k) 0 0) (20000 * usec_per_day) (Some [''TCS'']) ''3mo''
   = (Map.empty,
      [(''TCS.NS'', ''3mo''), (''TCS.NS'', ''ytd''),
       (''TCS.BO'', ''3mo''), (''TCS.BO'', ''ytd''), (''TCS.BO'', ''1y''), (''TCS.BO'', ''max''),
       (''TCS'', ''3mo''), (''TCS'', ''ytd''), (''TCS'', ''1y''), (''TCS'', ''max'')])
   \<and> fetch_nifty50_data
     (\<lambda>listing period. if listing = ''TCS.NS''
        then (if period = ''3mo'' then None
              else Some \<lparr>tz_aware = True,
                         quotes = [(20000 * usec_per_day - timedelta 10 0 0, ())]\<rparr>)
        else Some \<lparr>tz_aware = True, quotes = []\<rparr>)
     (\<lambda>k t. t - timedelta (30 * int k) 0 0) (20000 * usec_per_day) (Some [''TCS'']) ''3mo''
   = (Map.empty,
      [(''TCS.NS'', ''3mo''), (''TCS.NS'', ''ytd''), (''TCS.NS'', ''1y''), (''TCS.NS'', ''max''),
       (''TCS.BO'', ''3mo''), (''TCS.BO'', ''ytd''), (''TCS.BO'', ''1y''), (''TCS.BO'', ''max''),
       (''TCS'', ''3mo''), (''TCS'', ''ytd''), (''TCS'', ''1y''), (''TCS'', ''max'')])"
  by (simp add: fetch_nifty50_data_def get_nifty50_symbols_def symbol_mapping_def
      fetch_symbol_def fetch_stock_data_def loc_slice_def trim_start_def no_frame_def
      timedelta_def usec_per_day_def Let_def)

end
